theory Spec2Isabelle
  imports Main "HOL-Library.Word"
begin

section \<open>Name sanitizers (gohelpers.py, lines 15-33)\<close>

text \<open>
  The two module-level regular expressions and the two sanitizers. A Python string is a
  \<^typ>\<open>string\<close>; the character class \<^verbatim>\<open>[a-zA-Z0-9\.]\<close> is decided on the character code.
\<close>

definition is_name_char :: "char \<Rightarrow> bool" where
  "is_name_char c =
     (let n = (of_char c :: nat)
      in (97 \<le> n \<and> n \<le> 122) \<or> (65 \<le> n \<and> n \<le> 90) \<or> (48 \<le> n \<and> n \<le> 57) \<or> n = 46)"

text \<open>\<^verbatim>\<open>_RE_REPLACE_UNDERSCORE.sub("_", name)\<close>: every single character outside the class
  becomes an underscore.\<close>

definition replace_underscore :: "string \<Rightarrow> string" where
  "replace_underscore name = map (\<lambda>c. if is_name_char c then c else CHR ''_'') name"

text \<open>\<^verbatim>\<open>_RE_COMPRESS_UNDERSCORE.sub("_", varname)\<close> with the pattern \<^verbatim>\<open>__+\<close>: scanning from
  the left, a position where two underscores start is matched greedily with every
  underscore that follows and replaced by one underscore; any other character (a lone
  underscore too) is copied.\<close>

function compress_underscore :: "string \<Rightarrow> string" where
  "compress_underscore [] = []"
| "compress_underscore [c] = [c]"
| "compress_underscore (c # d # cs) =
     (if c = CHR ''_'' \<and> d = CHR ''_''
      then CHR ''_'' # compress_underscore (dropWhile (\<lambda>x. x = CHR ''_'') cs)
      else c # compress_underscore (d # cs))"
  by pat_completeness auto
termination
  by (relation "measure length") (auto simp: less_Suc_eq_le le_SucI length_dropWhile_le)

definition santize_gofunc_name :: "string \<Rightarrow> string" where
  "santize_gofunc_name name = filter (\<lambda>c. c \<noteq> CHR '' '') name"

definition sanitize_var_name :: "string \<Rightarrow> string" where
  "sanitize_var_name name = compress_underscore (replace_underscore name)"

text \<open>The sanitizer of data names as the specification words it: each maximal run of
  characters other than letters, digits and the dot becomes one underscore.\<close>

function spec_collapse_runs :: "string \<Rightarrow> string" where
  "spec_collapse_runs [] = []"
| "spec_collapse_runs (c # cs) =
     (if is_name_char c then c # spec_collapse_runs cs
      else CHR ''_'' # spec_collapse_runs (dropWhile (\<lambda>x. \<not> is_name_char x) cs))"
  by pat_completeness auto
termination
  by (relation "measure length") (auto simp: less_Suc_eq_le length_dropWhile_le)

section \<open>The host: binary view and analysis database\<close>

text \<open>
  The plugin runs against Binary Ninja, which is not part of the repository. What the code
  consumes from it read-only is a record of functions (\<open>bview\<close>); what the code mutates
  is the analysis database (\<open>database\<close>). A byte is an 8-bit word; an address and a
  pointer-sized value are Python integers.
\<close>

type_synonym byte = "8 word"

record section_info =
  start :: int

datatype symbol_kind = FunctionSymbol | DataSymbol

text \<open>\<^verbatim>\<open>bn.types.Symbol(kind, addr, short_name, full_name)\<close>.\<close>

datatype symbol = Symbol symbol_kind int string string

datatype llil_operation = LLIL_CALL | LLIL_PUSH | LLIL_OTHER

text \<open>A decoded low-level instruction: its operation and \<^verbatim>\<open>inst.src.value.value\<close>, which is
  \<open>None\<close> when the source operand has no constant value.\<close>

record llil_inst =
  operation :: llil_operation
  src_value :: "int option"

text \<open>\<^verbatim>\<open>fn.get_low_level_il_at(a)\<close> raises \<^verbatim>\<open>IndexError\<close>, returns \<^verbatim>\<open>None\<close>, or returns an
  instruction.\<close>

datatype il_lookup = IL_IndexError | IL_None | IL_Inst llil_inst

text \<open>
  Modelled from the spec: the read-only interface of the host (section 6 of the
  specification): section lookup by name, linear byte-pattern search, pointer reads whose
  failure is signalled distinctly from a zero value (\<open>None\<close>), raw byte reads that may return
  fewer bytes than asked for, string lookup, cross-references, basic-block lookup for an
  address and decoded instructions. A basic block is represented by the function it
  belongs to, a function by its address; a block that Python's \<^verbatim>\<open>not\<close> rejects is \<open>None\<close>.
\<close>

record bview =
  ptr_size :: int
  sections :: "string \<rightharpoonup> section_info"
  find_next_data :: "int \<Rightarrow> byte list \<Rightarrow> int option"
  read64 :: "int \<Rightarrow> int option"
  read32 :: "int \<Rightarrow> int option"
  read :: "int \<Rightarrow> int \<Rightarrow> byte list"
  get_ascii_string_at :: "int \<Rightarrow> string option"
  get_symbol_by_raw_name :: "string \<Rightarrow> int option"
  get_code_refs :: "int \<Rightarrow> int list"
  get_basic_blocks_at :: "int \<Rightarrow> int option list"
  get_low_level_il_at :: "int \<Rightarrow> int \<Rightarrow> il_lookup"
  function_name :: "int \<Rightarrow> string"

text \<open>
  Modelled from the spec: the analysis database (function lookup and creation by address,
  symbol definition by address, data variables by address).
\<close>

record database =
  funcs :: "int set"
  symbols :: "int \<rightharpoonup> symbol"
  data_vars :: "int \<rightharpoonup> string"

datatype log_entry =
    Info_renaming
  | Alert_not_found
  | Info_found int int
  | Debug_analyzing int
  | Debug_func_entry int int
  | Debug_found_name string int
  | Warn_not_using string int int int
  | Info_renamed nat
  | Info_xref int
  | Debug_not_call
  | Debug_instruction int
  | Info_newproc_call "int option"
  | Info_renamed_fptrs nat

text \<open>The exceptions the code can raise. \<open>None_operand\<close> is the exception Python raises
  where the \<open>None\<close> of a failed read is used in arithmetic or formatted as a hexadecimal
  number; \<open>None_attribute\<close> the one for an attribute of \<open>None\<close>; \<open>Unbound_local\<close> the one
  for a local variable read before its first assignment; \<open>Index_error\<close> an \<^verbatim>\<open>IndexError\<close>
  that no handler catches.\<close>

datatype error =
    Unsupported_ptr_size int
  | Invalid_size nat
  | None_operand
  | None_attribute
  | Unbound_local
  | Index_error

datatype outcome = Normal | Raised error

text \<open>The state one run threads through its loop: the database, the local counter
  \<open>renamed\<close> and the messages logged so far.\<close>

record run =
  db :: database
  renamed :: nat
  log :: "log_entry list"

definition log_msg :: "log_entry \<Rightarrow> run \<Rightarrow> run" where
  "log_msg e st = st\<lparr>log := log st @ [e]\<rparr>"

definition create_user_function :: "int \<Rightarrow> run \<Rightarrow> run" where
  "create_user_function a st = st\<lparr>db := (db st)\<lparr>funcs := insert a (funcs (db st))\<rparr>\<rparr>"

definition define_user_symbol :: "symbol \<Rightarrow> run \<Rightarrow> run" where
  "define_user_symbol smb st =
     (case smb of Symbol k a n f \<Rightarrow> st\<lparr>db := (db st)\<lparr>symbols := (symbols (db st))(a \<mapsto> smb)\<rparr>\<rparr>)"

definition define_user_data_var :: "int \<Rightarrow> string \<Rightarrow> run \<Rightarrow> run" where
  "define_user_data_var a t st = st\<lparr>db := (db st)\<lparr>data_vars := (data_vars (db st))(a \<mapsto> t)\<rparr>\<rparr>"

section \<open>GoHelper (gohelpers.py, lines 36-78)\<close>

definition get_section_by_name :: "bview \<Rightarrow> string \<Rightarrow> section_info option" where
  "get_section_by_name bv section_name = sections bv section_name"

text \<open>\<^verbatim>\<open>struct.unpack("Q", x)\<close> and \<^verbatim>\<open>struct.unpack("I", x)\<close> on the machines the plugin runs
  on: the bytes as an unsigned little-endian number.\<close>

fun unpack_le :: "byte list \<Rightarrow> int" where
  "unpack_le [] = 0"
| "unpack_le (b # bs) = uint b + 256 * unpack_le bs"

text \<open>\<open>get_pointer_at_virt\<close> asks the view for \<open>ptr_size\<close> bytes and chooses the decoder by
  the number of bytes that came back.\<close>

definition get_pointer_at_virt :: "bview \<Rightarrow> int \<Rightarrow> error + int" where
  "get_pointer_at_virt bv addr =
     (let x = read bv addr (ptr_size bv)
      in if length x = 8 then Inr (unpack_le x)
         else if length x = 4 then Inr (unpack_le x)
         else Inl (Invalid_size (length x)))"

text \<open>\<open>get_pointer_at\<close> seeks the reader and chooses \<open>read64\<close> or \<open>read32\<close> by the size asked
  for (\<open>ptr_size\<close> when the argument is \<open>None\<close>). Its value is what the reader returns,
  \<open>None\<close> for a failed read.\<close>

definition get_pointer_at :: "bview \<Rightarrow> int \<Rightarrow> int option \<Rightarrow> error + int option" where
  "get_pointer_at bv at_addr size_arg =
     (let sz = (case size_arg of None \<Rightarrow> ptr_size bv | Some s \<Rightarrow> s)
      in if sz = 8 then Inr (read64 bv at_addr)
         else if sz = 4 then Inr (read32 bv at_addr)
         else Inl (Unsupported_ptr_size sz))"

text \<open>Lines 71-78: the function of the first basic block at \<open>addr\<close>, if there is one.\<close>

definition get_function_around :: "bview \<Rightarrow> int \<Rightarrow> int option" where
  "get_function_around bv addr =
     (case get_basic_blocks_at bv addr of
        [] \<Rightarrow> None
      | bb # _ \<Rightarrow> (case bb of None \<Rightarrow> None | Some f \<Rightarrow> Some f))"

section \<open>FunctionRenamer (gohelpers.py, lines 81-141)\<close>

definition GOFUNC_PREFIX :: string where
  "GOFUNC_PREFIX = ''go.''"

definition gopclntab_pattern :: "byte list" where
  "gopclntab_pattern = [0xfb, 0xff, 0xff, 0xff, 0x00, 0x00]"

text \<open>Lines 86-96: the base address of the table, from the section named \<^verbatim>\<open>.gopclntab\<close> or
  else from a search of the six pattern bytes starting at address 0.\<close>

definition locate_base_addr :: "bview \<Rightarrow> int option" where
  "locate_base_addr bv =
     (case get_section_by_name bv ''.gopclntab'' of
        None \<Rightarrow> find_next_data bv 0 gopclntab_pattern
      | Some gopclntab \<Rightarrow> Some (start gopclntab))"

text \<open>Python's \<^verbatim>\<open>range(start, stop, step)\<close> for a positive step, the only one the walker
  reaches: \<open>get_pointer_at\<close> has raised before the loop unless \<open>ptr_size\<close> is 4 or 8.\<close>

function py_range :: "int \<Rightarrow> int \<Rightarrow> int \<Rightarrow> int list" where
  "py_range i stop step =
     (if 0 < step \<and> i < stop then i # py_range (i + step) stop step else [])"
  by pat_completeness auto
termination
  by (relation "measure (\<lambda>(i, stop, step). nat (stop - i))") auto

declare py_range.simps [simp del]

text \<open>Lines 108-139: the body of the loop for the entry at \<open>addr\<close>.\<close>

definition process_entry :: "bview \<Rightarrow> int \<Rightarrow> int \<Rightarrow> run \<Rightarrow> outcome \<times> run" where
  "process_entry bv base_addr addr st0 =
     (let st1 = log_msg (Debug_analyzing addr) st0 in
      case get_pointer_at bv addr None of
        Inl e \<Rightarrow> (Raised e, st1)
      | Inr func_addr_v \<Rightarrow>
      (case get_pointer_at bv (addr + ptr_size bv) None of
        Inl e \<Rightarrow> (Raised e, st1)
      | Inr entry_offset_v \<Rightarrow>
      (case func_addr_v of
        None \<Rightarrow> (Raised None_operand, st1)
      | Some func_addr \<Rightarrow>
      (case entry_offset_v of
        None \<Rightarrow> (Raised None_operand, st1)
      | Some entry_offset \<Rightarrow>
      (let st2 = log_msg (Debug_func_entry func_addr entry_offset) st1 in
       case get_pointer_at bv (base_addr + entry_offset + ptr_size bv) (Some 4) of
         Inl e \<Rightarrow> (Raised e, st2)
       | Inr None \<Rightarrow> (Raised None_operand, st2)
       | Inr (Some name_str_offset) \<Rightarrow>
       (let name_addr = base_addr + name_str_offset in
        case get_ascii_string_at bv name_addr of
          None \<Rightarrow> (Normal, st2)
        | Some name \<Rightarrow>
            if name = [] then (Normal, st2)
            else
              (let st3 = log_msg (Debug_found_name name func_addr) st2;
                   st4 = (if func_addr \<in> funcs (db st3) then st3
                          else create_user_function func_addr st3)
               in if 2 < length name
                  then (let name' = GOFUNC_PREFIX @ santize_gofunc_name name;
                            smb = Symbol FunctionSymbol func_addr name' name';
                            st5 = define_user_symbol smb st4
                        in (Normal, st5\<lparr>renamed := renamed st5 + 1\<rparr>))
                  else (Normal,
                        log_msg (Warn_not_using name func_addr addr name_addr) st4))))))))"

text \<open>The loop of line 107: an exception in one entry ends the loop.\<close>

fun walk_entries :: "bview \<Rightarrow> int \<Rightarrow> int list \<Rightarrow> run \<Rightarrow> outcome \<times> run" where
  "walk_entries bv base_addr [] st = (Normal, st)"
| "walk_entries bv base_addr (addr # addrs) st =
     (case process_entry bv base_addr addr st of
        (Normal, st') \<Rightarrow> walk_entries bv base_addr addrs st'
      | (Raised e, st') \<Rightarrow> (Raised e, st'))"

text \<open>Lines 104-107: the addresses the loop visits, for the base address, the value
  \<open>size_v\<close> (the source's \<open>size\<close>) read at \<open>base_addr + 8\<close> and the pointer size.\<close>

definition entry_addrs :: "int \<Rightarrow> int \<Rightarrow> int \<Rightarrow> int list" where
  "entry_addrs base_addr size_v psize =
     (let size_addr = base_addr + 8;
          start_addr = size_addr + psize;
          end_addr = base_addr + (size_v * psize * 2)
      in py_range start_addr end_addr (2 * psize))"

text \<open>\<open>rename_functions\<close>, started on the database \<open>d\<close>. The number of entries in the
  message of line 101 is the integer quotient of Python 2.\<close>

definition rename_functions :: "bview \<Rightarrow> database \<Rightarrow> outcome \<times> run" where
  "rename_functions bv d =
     (let st0 = log_msg Info_renaming \<lparr>db = d, renamed = 0, log = []\<rparr> in
      case locate_base_addr bv of
        None \<Rightarrow> (Normal, log_msg Alert_not_found st0)
      | Some base_addr \<Rightarrow>
      (let size_addr = base_addr + 8 in
       case get_pointer_at bv size_addr None of
         Inl e \<Rightarrow> (Raised e, st0)
       | Inr None \<Rightarrow> (Raised None_operand, st0)
       | Inr (Some size_v) \<Rightarrow>
       (let st1 = log_msg (Info_found base_addr (size_v div (ptr_size bv * 2))) st0 in
        case walk_entries bv base_addr (entry_addrs base_addr size_v (ptr_size bv)) st1 of
          (Normal, st2) \<Rightarrow> (Normal, log_msg (Info_renamed (renamed st2)) st2)
        | (Raised e, st2) \<Rightarrow> (Raised e, st2))))"

text \<open>The walker's range as the specification words it: it ends before
  \<open>base_addr + raw_size * pointer_width\<close>.\<close>

definition spec_entry_addrs :: "int \<Rightarrow> int \<Rightarrow> int \<Rightarrow> int list" where
  "spec_entry_addrs base_addr raw_size pointer_width =
     py_range (base_addr + 8 + pointer_width) (base_addr + raw_size * pointer_width)
       (2 * pointer_width)"

section \<open>NewProcRenamer (gohelpers.py, lines 153-211)\<close>

text \<open>
  The local variable \<open>inst\<close> of \<open>rename\<close> lives across the sites: it is unbound (\<open>None\<close>),
  bound to Python's \<open>None\<close> (\<open>Some None\<close>) or bound to an instruction.

  Lines 171-178: at most six tries to decode an instruction below the call. \<open>j\<close> is
  advanced before each try; a try that raises \<^verbatim>\<open>IndexError\<close> leaves \<open>inst\<close> as it was.
\<close>

fun try_lookups ::
  "bview \<Rightarrow> int \<Rightarrow> int \<Rightarrow> nat \<Rightarrow> int \<Rightarrow> llil_inst option option \<Rightarrow> run
     \<Rightarrow> int \<times> llil_inst option option \<times> run" where
  "try_lookups bv fn addr 0 j inst st = (j, inst, st)"
| "try_lookups bv fn addr (Suc n) j inst st =
     (let j' = j + 1 in
      case get_low_level_il_at bv fn (addr - j') of
        IL_IndexError \<Rightarrow> try_lookups bv fn addr n j' inst st
      | IL_None \<Rightarrow> (j', Some None, log_msg (Debug_instruction j') st)
      | IL_Inst i \<Rightarrow> (j', Some (Some i), log_msg (Debug_instruction j') st))"

text \<open>Lines 170-179: the loop \<^verbatim>\<open>while len(params) < 2\<close>; \<open>n\<close> is the number of parameters still
  missing. Appending an unbound \<open>inst\<close> raises.\<close>

fun collect_params ::
  "bview \<Rightarrow> int \<Rightarrow> int \<Rightarrow> nat \<Rightarrow> int \<Rightarrow> llil_inst option option \<Rightarrow> llil_inst option list \<Rightarrow> run
     \<Rightarrow> outcome \<times> llil_inst option list \<times> llil_inst option option \<times> run" where
  "collect_params bv fn addr 0 j inst params st = (Normal, params, inst, st)"
| "collect_params bv fn addr (Suc n) j inst params st =
     (case try_lookups bv fn addr 6 j inst st of
        (j', inst', st') \<Rightarrow>
          (case inst' of
             None \<Rightarrow> (Raised Unbound_local, params, inst', st')
           | Some v \<Rightarrow> collect_params bv fn addr n j' inst' (params @ [v]) st'))"

text \<open>Lines 183-186: the flag \<open>skip\<close> starts as \<open>True\<close> and the loop over the collected
  instructions sets it to \<open>True\<close> for each one that is not a push. The loop variable is
  \<open>inst\<close> again.\<close>

fun check_pushes ::
  "llil_inst option list \<Rightarrow> bool \<Rightarrow> llil_inst option option
     \<Rightarrow> outcome \<times> bool \<times> llil_inst option option" where
  "check_pushes [] skip inst = (Normal, skip, inst)"
| "check_pushes (p # ps) skip inst =
     (case p of
        None \<Rightarrow> (Raised None_attribute, skip, Some p)
      | Some i \<Rightarrow>
          check_pushes ps (if operation i \<noteq> LLIL_PUSH then True else skip) (Some p))"

text \<open>Lines 192-208: the function pointer of the second collected instruction.\<close>

definition resolve_fptr :: "bview \<Rightarrow> llil_inst option list \<Rightarrow> run \<Rightarrow> outcome \<times> run" where
  "resolve_fptr bv params st =
     (case params of
        p0 # p1 # rest \<Rightarrow>
          (case p1 of
             None \<Rightarrow> (Raised None_attribute, st)
           | Some i \<Rightarrow>
               (let fptr = src_value i;
                    st1 = log_msg (Info_newproc_call fptr) st
                in case fptr of
                     None \<Rightarrow> (Normal, st1)
                   | Some f \<Rightarrow>
                       if f \<noteq> 0 \<and> symbols (db st1) f = None
                       then (case get_pointer_at_virt bv f of
                               Inl e \<Rightarrow> (Raised e, st1)
                             | Inr a \<Rightarrow>
                                 if a \<in> funcs (db st1)
                                 then (let varname = ''fptr_'' @ sanitize_var_name (function_name bv a);
                                           st2 = define_user_data_var a ''void*'' st1;
                                           st3 = define_user_symbol
                                                   (Symbol DataSymbol a varname varname) st2
                                       in (Normal, st3\<lparr>renamed := renamed st3 + 1\<rparr>))
                                 else (Normal, st1))
                       else (Normal, st1)))
      | _ \<Rightarrow> (Raised Index_error, st))"

text \<open>Lines 159-208: the body of the loop for the cross-reference at \<open>addr\<close>.\<close>

definition scan_site ::
  "bview \<Rightarrow> int \<Rightarrow> llil_inst option option \<Rightarrow> run \<Rightarrow> outcome \<times> llil_inst option option \<times> run" where
  "scan_site bv addr inst st0 =
     (let st1 = log_msg (Info_xref addr) st0 in
      case get_function_around bv addr of
        None \<Rightarrow> (Raised None_attribute, inst, st1)
      | Some fn \<Rightarrow>
      (case get_low_level_il_at bv fn addr of
        IL_IndexError \<Rightarrow> (Raised Index_error, inst, st1)
      | IL_None \<Rightarrow> (Raised None_attribute, inst, st1)
      | IL_Inst callinst \<Rightarrow>
          if operation callinst \<noteq> LLIL_CALL
          then (Normal, inst, log_msg Debug_not_call st1)
          else
            (case collect_params bv fn addr 2 1 inst [] st1 of
               (Raised e, params, inst1, st2) \<Rightarrow> (Raised e, inst1, st2)
             | (Normal, params, inst1, st2) \<Rightarrow>
                 (case check_pushes params True inst1 of
                    (Raised e, skip, inst2) \<Rightarrow> (Raised e, inst2, st2)
                  | (Normal, skip, inst2) \<Rightarrow>
                      if skip then (Normal, inst2, st2)
                      else (case resolve_fptr bv params st2 of
                              (out, st3) \<Rightarrow>
                                (out, (case params of p0 # p1 # rest \<Rightarrow> Some p1 | _ \<Rightarrow> inst2),
                                 st3))))))"

fun scan_sites ::
  "bview \<Rightarrow> int list \<Rightarrow> llil_inst option option \<Rightarrow> run \<Rightarrow> outcome \<times> run" where
  "scan_sites bv [] inst st = (Normal, st)"
| "scan_sites bv (addr # addrs) inst st =
     (case scan_site bv addr inst st of
        (Normal, inst', st') \<Rightarrow> scan_sites bv addrs inst' st'
      | (Raised e, inst', st') \<Rightarrow> (Raised e, st'))"

text \<open>\<open>rename\<close>, started on the database \<open>d\<close>.\<close>

definition rename :: "bview \<Rightarrow> database \<Rightarrow> outcome \<times> run" where
  "rename bv d =
     (let st0 = \<lparr>db = d, renamed = 0, log = []\<rparr> in
      case get_symbol_by_raw_name bv ''go.runtime.newproc'' of
        None \<Rightarrow> (Raised None_attribute, st0)
      | Some newproc_address \<Rightarrow>
          (case scan_sites bv (get_code_refs bv newproc_address) None st0 of
             (Normal, st1) \<Rightarrow> (Normal, log_msg (Info_renamed_fptrs (renamed st1)) st1)
           | (Raised e, st1) \<Rightarrow> (Raised e, st1)))"

section \<open>Concrete images\<close>

text \<open>A view with 8-byte pointers in which nothing is mapped, and an empty database.\<close>

definition null_view :: bview where
  "null_view =
     \<lparr>ptr_size = 8, sections = Map.empty, find_next_data = (\<lambda>_ _. None),
      read64 = (\<lambda>_. None), read32 = (\<lambda>_. None), read = (\<lambda>_ _. []),
      get_ascii_string_at = (\<lambda>_. None), get_symbol_by_raw_name = (\<lambda>_. None),
      get_code_refs = (\<lambda>_. []), get_basic_blocks_at = (\<lambda>_. []),
      get_low_level_il_at = (\<lambda>_ _. IL_IndexError), function_name = (\<lambda>_. [])\<rparr>"

definition empty_db :: database where
  "empty_db = \<lparr>funcs = {}, symbols = Map.empty, data_vars = Map.empty\<rparr>"

definition run0 :: run where
  "run0 = \<lparr>db = empty_db, renamed = 0, log = []\<rparr>"

text \<open>
  A well-formed table of one entry in the section \<^verbatim>\<open>.gopclntab\<close> at 0x1000, 8-byte pointers:
  the size field at 0x1008 holds 16 = 1 * 2 * 8; the entry at 0x1010 holds the function
  address 0x2000 and the offset 0x100; the 4-byte name offset at 0x1000 + 0x100 + 8 is
  0x200; the string at 0x1200 is \<^verbatim>\<open>main.foo\<close>. Every other pointer reads as zero.
\<close>

definition one_entry_view :: bview where
  "one_entry_view =
     null_view
       \<lparr>sections := [''.gopclntab'' \<mapsto> \<lparr>start = 4096\<rparr>],
        read64 := (\<lambda>a. if a = 4104 then Some 16 else if a = 4112 then Some 8192
                        else if a = 4120 then Some 256 else Some 0),
        read32 := (\<lambda>a. if a = 4360 then Some 512 else if a = 4104 then Some 16 else Some 0),
        get_ascii_string_at := (\<lambda>a. if a = 4608 then Some ''main.foo'' else None)\<rparr>"

definition is_analyzing :: "log_entry \<Rightarrow> bool" where
  "is_analyzing e = (case e of Debug_analyzing a \<Rightarrow> True | _ \<Rightarrow> False)"

text \<open>
  The same table with the name \<open>nm\<close> at 0x1200 and the size field 2, so that the loop visits
  the entry at 0x1010 only.
\<close>

definition named_entry_view :: "string \<Rightarrow> bview" where
  "named_entry_view nm =
     null_view
       \<lparr>sections := [''.gopclntab'' \<mapsto> \<lparr>start = 4096\<rparr>],
        read64 := (\<lambda>a. if a = 4104 then Some 2 else if a = 4112 then Some 8192
                        else if a = 4120 then Some 256 else Some 0),
        read32 := (\<lambda>a. if a = 4360 then Some 512 else if a = 4104 then Some 2 else Some 0),
        get_ascii_string_at := (\<lambda>a. if a = 4608 then Some nm else None)\<rparr>"

text \<open>
  A partially corrupt table at 0x1000 whose size field 3 makes the loop visit the entries at
  0x1010 and 0x1020. The first entry holds the function address 0x2000 and the corrupt
  offset 0x7fffffff, so that its 4-byte name offset lies outside the mapped image and
  cannot be read. The second entry is intact: function address 0x2100, offset 0x200, name
  offset 0x300 at 0x1208, the string \<^verbatim>\<open>main.bar\<close> at 0x1300. Nothing else is mapped.
\<close>

definition corrupt_entry_view :: bview where
  "corrupt_entry_view =
     null_view
       \<lparr>sections := [''.gopclntab'' \<mapsto> \<lparr>start = 4096\<rparr>],
        read64 := (\<lambda>a. if a = 4104 then Some 3 else if a = 4112 then Some 8192
                        else if a = 4120 then Some 2147483647
                        else if a = 4128 then Some 8448
                        else if a = 4136 then Some 512 else None),
        read32 := (\<lambda>a. if a = 4616 then Some 768 else None),
        get_ascii_string_at := (\<lambda>a. if a = 4864 then Some ''main.bar'' else None)\<rparr>"

text \<open>
  A view with 8-byte pointers in which only the four bytes at 0x6000 are mapped: a read of
  eight bytes there returns the four.
\<close>

definition short_read_view :: bview where
  "short_read_view =
     null_view\<lparr>read := (\<lambda>a n. if a = 24576 then take (nat n) [0x78, 0x56, 0x34, 0x12] else [])\<rparr>"

text \<open>
  Modelled from the spec: the host's linear byte-pattern search, over an image whose first
  byte is at address 0: the lowest address from \<open>a\<close> on at which the pattern occurs.
\<close>

fun find_from :: "byte list \<Rightarrow> int \<Rightarrow> byte list \<Rightarrow> int option" where
  "find_from pat a [] = None"
| "find_from pat a (b # bs) =
     (if take (length pat) (b # bs) = pat then Some a else find_from pat (a + 1) bs)"

definition image_view :: "byte list \<Rightarrow> bview" where
  "image_view img =
     null_view\<lparr>find_next_data := (\<lambda>a pat. find_from pat a (drop (nat a) img))\<rparr>"

text \<open>An image without sections that holds the six pattern bytes at the addresses 1 and 9.\<close>

definition two_match_image :: "byte list" where
  "two_match_image =
     [0x00, 0xfb, 0xff, 0xff, 0xff, 0x00, 0x00, 0x01, 0x08,
      0xfb, 0xff, 0xff, 0xff, 0x00, 0x00, 0x01, 0x08]"

text \<open>
  A call of \<^verbatim>\<open>go.runtime.newproc\<close> (at 0x3000) from 0x5000 in the function at 0x4000. The
  instructions found below the call, at 0x5000 - 2 and 0x5000 - 3, are two pushes; the
  second pushes the constant 0x6000, where the eight bytes of the pointer 0x2000 are
  stored. The database has a function at 0x2000, named \<^verbatim>\<open>main.worker\<close>, and no symbol.
\<close>

definition push_size :: llil_inst where
  "push_size = \<lparr>operation = LLIL_PUSH, src_value = Some 8\<rparr>"

definition push_fptr :: llil_inst where
  "push_fptr = \<lparr>operation = LLIL_PUSH, src_value = Some 24576\<rparr>"

definition newproc_view :: bview where
  "newproc_view =
     null_view
       \<lparr>read := (\<lambda>a n. if a = 24576 then take (nat n) [0x00, 0x20, 0, 0, 0, 0, 0, 0] else []),
        get_symbol_by_raw_name := (\<lambda>n. if n = ''go.runtime.newproc'' then Some 12288 else None),
        get_code_refs := (\<lambda>a. if a = 12288 then [20480] else []),
        get_basic_blocks_at := (\<lambda>a. if a = 20480 then [Some 16384] else []),
        get_low_level_il_at :=
          (\<lambda>f a. if a = 20480 then IL_Inst \<lparr>operation = LLIL_CALL, src_value = None\<rparr>
                  else if a = 20478 then IL_Inst push_size
                  else if a = 20477 then IL_Inst push_fptr
                  else IL_IndexError),
        function_name := (\<lambda>a. if a = 8192 then ''main.worker'' else [])\<rparr>"

definition newproc_db :: database where
  "newproc_db = \<lparr>funcs = {8192}, symbols = Map.empty, data_vars = Map.empty\<rparr>"

section \<open>Properties of the sanitizers\<close>

lemma underscore_not_name_char: "\<not> is_name_char (CHR ''_'')"
  by (simp add: is_name_char_def)

lemma compress_underscore_other:
  "c \<noteq> CHR ''_'' \<Longrightarrow> compress_underscore (c # xs) = c # compress_underscore xs"
  by (cases xs) simp_all

lemma compress_underscore_run:
  "compress_underscore (CHR ''_'' # xs) =
     CHR ''_'' # compress_underscore (dropWhile (\<lambda>x. x = CHR ''_'') xs)"
  by (cases xs) simp_all

lemma dropWhile_replace_underscore:
  "dropWhile (\<lambda>x. x = CHR ''_'') (replace_underscore cs) =
     replace_underscore (dropWhile (\<lambda>x. \<not> is_name_char x) cs)"
proof (induction cs)
  case Nil
  show ?case by (simp add: replace_underscore_def)
next
  case (Cons c cs)
  show ?case
  proof (cases "is_name_char c")
    case True
    then have "c \<noteq> CHR ''_''" using underscore_not_name_char by auto
    with True show ?thesis by (simp add: replace_underscore_def)
  next
    case False
    with Cons show ?thesis by (simp add: replace_underscore_def)
  qed
qed

lemma sanitize_var_name_collapse: "sanitize_var_name s = spec_collapse_runs s"
proof (induction s rule: spec_collapse_runs.induct)
  case 1
  show ?case by (simp add: sanitize_var_name_def replace_underscore_def)
next
  case (2 c cs)
  show ?case
  proof (cases "is_name_char c")
    case True
    then have ne: "c \<noteq> CHR ''_''" using underscore_not_name_char by auto
    have "sanitize_var_name (c # cs) = c # sanitize_var_name cs"
      using True ne
      by (simp add: sanitize_var_name_def replace_underscore_def compress_underscore_other)
    with 2(1) True show ?thesis by simp
  next
    case False
    have "sanitize_var_name (c # cs) =
            CHR ''_'' # compress_underscore (dropWhile (\<lambda>x. x = CHR ''_'') (replace_underscore cs))"
      using False compress_underscore_run [of "replace_underscore cs"]
      by (simp add: sanitize_var_name_def replace_underscore_def)
    also have "\<dots> = CHR ''_'' # sanitize_var_name (dropWhile (\<lambda>x. \<not> is_name_char x) cs)"
      by (simp add: dropWhile_replace_underscore sanitize_var_name_def)
    finally show ?thesis using 2(2) False by simp
  qed
qed

lemma spec_collapse_runs_dropWhile:
  "dropWhile (\<lambda>x. \<not> is_name_char x)
      (spec_collapse_runs (dropWhile (\<lambda>x. \<not> is_name_char x) cs)) =
   spec_collapse_runs (dropWhile (\<lambda>x. \<not> is_name_char x) cs)"
proof -
  define ds where "ds = dropWhile (\<lambda>x. \<not> is_name_char x) cs"
  have "ds = [] \<or> is_name_char (hd ds)"
    unfolding ds_def using hd_dropWhile [of "\<lambda>x. \<not> is_name_char x" cs] by blast
  then have "dropWhile (\<lambda>x. \<not> is_name_char x) (spec_collapse_runs ds) = spec_collapse_runs ds"
    by (cases ds) auto
  then show ?thesis by (simp only: ds_def)
qed

lemma spec_collapse_runs_idem: "spec_collapse_runs (spec_collapse_runs s) = spec_collapse_runs s"
proof (induction s rule: spec_collapse_runs.induct)
  case 1
  show ?case by simp
next
  case (2 c cs)
  show ?case
  proof (cases "is_name_char c")
    case True
    with 2(1) show ?thesis by simp
  next
    case False
    with 2(2) show ?thesis
      by (simp add: underscore_not_name_char spec_collapse_runs_dropWhile)
  qed
qed

text \<open>
  Claim C8. For every input string, the data-name sanitizer replaces each maximal run of
  characters other than ASCII letters, digits and the dot by a single underscore: the
  two regular-expression passes of the source compute exactly the run-collapsing function
  of the specification, and the two examples of the specification evaluate as stated.
\<close>

theorem sanitize_var_name_collapses_runs:
  "sanitize_var_name s = spec_collapse_runs s
   \<and> sanitize_var_name ''a  --b'' = ''a_b''
   \<and> sanitize_var_name ''a___b'' = ''a_b''"
proof -
  have "sanitize_var_name ''a  --b'' = ''a_b''"
    by (simp add: sanitize_var_name_def replace_underscore_def is_name_char_def)
  moreover have "sanitize_var_name ''a___b'' = ''a_b''"
    by (simp add: sanitize_var_name_def replace_underscore_def is_name_char_def)
  ultimately show ?thesis
    using sanitize_var_name_collapse by blast
qed

text \<open>
  Claim C9. Both sanitizers are total functions of their argument alone, and both are
  idempotent: sanitizing a sanitized name changes nothing.
\<close>

theorem sanitizers_idempotent:
  "santize_gofunc_name (santize_gofunc_name x) = santize_gofunc_name x
   \<and> sanitize_var_name (sanitize_var_name x) = sanitize_var_name x"
  by (simp add: santize_gofunc_name_def sanitize_var_name_collapse spec_collapse_runs_idem)

section \<open>The address range of the walker\<close>

lemma py_range_step: "0 < step \<Longrightarrow> i < stop \<Longrightarrow> py_range i stop step = i # py_range (i + step) stop step"
  by (subst py_range.simps) simp

lemma py_range_done: "\<not> i < stop \<Longrightarrow> py_range i stop step = []"
  by (subst py_range.simps) simp

lemma py_range_set:
  "0 < step \<Longrightarrow> set (py_range i stop step) = {a. i \<le> a \<and> a < stop \<and> step dvd (a - i)}"
proof (induction i stop step rule: py_range.induct)
  case (1 i stop step)
  show ?case
  proof (cases "i < stop")
    case True
    have ih: "set (py_range (i + step) stop step) =
                {a. i + step \<le> a \<and> a < stop \<and> step dvd (a - (i + step))}"
      using 1 True by simp
    have "{a. i \<le> a \<and> a < stop \<and> step dvd (a - i)} =
            insert i {a. i + step \<le> a \<and> a < stop \<and> step dvd (a - (i + step))}"
    proof (rule set_eqI)
      fix a
      have d: "step dvd (a - (i + step)) \<longleftrightarrow> step dvd (a - i)"
      proof -
        have "a - i = (a - (i + step)) + step" by simp
        then show ?thesis by (metis dvd_add_left_iff dvd_refl)
      qed
      have far: "i + step \<le> a" if "i < a" "step dvd (a - i)"
        using that 1(2) zdvd_imp_le [of step "a - i"] by simp
      show "a \<in> {a. i \<le> a \<and> a < stop \<and> step dvd (a - i)} \<longleftrightarrow>
            a \<in> insert i {a. i + step \<le> a \<and> a < stop \<and> step dvd (a - (i + step))}"
      proof (cases "a = i")
        case True
        with \<open>i < stop\<close> show ?thesis by simp
      next
        case False
        then have "i \<le> a \<longleftrightarrow> i < a" by auto
        then show ?thesis using False d far 1(2) by auto
      qed
    qed
    then show ?thesis using ih py_range_step [OF 1(2) True] by simp
  next
    case False
    then show ?thesis by (simp add: py_range_done)
  qed
qed

lemma py_range_increasing:
  "0 < step \<Longrightarrow> sorted_wrt (<) (py_range i stop step)"
proof (induction i stop step rule: py_range.induct)
  case (1 i stop step)
  show ?case
  proof (cases "i < stop")
    case True
    have "\<forall>a \<in> set (py_range (i + step) stop step). i < a"
      using 1(2) by (simp add: py_range_set)
    then show ?thesis using py_range_step [OF 1(2) True] 1 True by simp
  next
    case False
    then show ?thesis by (simp add: py_range_done)
  qed
qed

text \<open>
  Claim C3, as amended. For a positive pointer size, the addresses the loop visits are
  exactly those from \<open>base_addr + 8 + psize\<close>, in steps of \<open>2 * psize\<close>, that lie before
  \<open>base_addr + size * psize * 2\<close>, in increasing order. The end of the range has the factor
  2 that the formula of the specification lacks.
\<close>

theorem entry_addrs_range:
  "0 < psize \<Longrightarrow>
   set (entry_addrs base_addr size_v psize) =
     {a. base_addr + 8 + psize \<le> a \<and> a < base_addr + size_v * psize * 2
         \<and> (2 * psize) dvd (a - (base_addr + 8 + psize))}
   \<and> sorted_wrt (<) (entry_addrs base_addr size_v psize)"
  by (simp add: entry_addrs_def Let_def py_range_set py_range_increasing)

theorem entry_addrs_range_witness:
  "(0::int) < 8
   \<and> set (entry_addrs 4096 4 8) = {a. 4112 \<le> a \<and> a < 4160 \<and> 16 dvd (a - 4112)}
   \<and> sorted_wrt (<) (entry_addrs 4096 4 8)"
  using entry_addrs_range [of 8 4096 4] by simp

text \<open>
  For the base address 0x1000, the size field 4 and 8-byte pointers the source visits three
  addresses, the range of the specification one.
\<close>

theorem entry_addrs_end_counterexample:
  "entry_addrs 4096 4 8 = [4112, 4128, 4144] \<and> spec_entry_addrs 4096 4 8 = [4112]"
  by (simp add: entry_addrs_def spec_entry_addrs_def py_range.simps)

section \<open>One entry of the table\<close>

lemma process_entry_named:
  assumes "get_pointer_at bv addr None = Inr (Some func_addr)"
    and "get_pointer_at bv (addr + ptr_size bv) None = Inr (Some entry_offset)"
    and "get_pointer_at bv (base_addr + entry_offset + ptr_size bv) (Some 4) = Inr (Some name_str_offset)"
    and "get_ascii_string_at bv (base_addr + name_str_offset) = Some name"
    and "name \<noteq> []"
  shows "process_entry bv base_addr addr st =
     (let st3 = log_msg (Debug_found_name name func_addr)
                  (log_msg (Debug_func_entry func_addr entry_offset)
                    (log_msg (Debug_analyzing addr) st));
          st4 = (if func_addr \<in> funcs (db st3) then st3 else create_user_function func_addr st3)
      in if 2 < length name
         then (Normal, (define_user_symbol
                  (Symbol FunctionSymbol func_addr (GOFUNC_PREFIX @ santize_gofunc_name name)
                     (GOFUNC_PREFIX @ santize_gofunc_name name)) st4)
                  \<lparr>renamed := renamed st4 + 1\<rparr>)
         else (Normal, log_msg (Warn_not_using name func_addr addr (base_addr + name_str_offset)) st4))"
  using assms by (simp add: process_entry_def Let_def define_user_symbol_def)

lemma process_entry_nameless:
  assumes "get_pointer_at bv addr None = Inr (Some func_addr)"
    and "get_pointer_at bv (addr + ptr_size bv) None = Inr (Some entry_offset)"
    and "get_pointer_at bv (base_addr + entry_offset + ptr_size bv) (Some 4) = Inr (Some name_str_offset)"
    and "get_ascii_string_at bv (base_addr + name_str_offset) = None
         \<or> get_ascii_string_at bv (base_addr + name_str_offset) = Some []"
  shows "process_entry bv base_addr addr st =
     (Normal, log_msg (Debug_func_entry func_addr entry_offset) (log_msg (Debug_analyzing addr) st))"
  using assms by (auto simp add: process_entry_def Let_def)

text \<open>
  Claim C2, as amended. For an entry whose reads succeed and whose name is not empty:
  when the raw name (before sanitization) has at most 2 characters, no symbol is defined,
  no data variable is defined, the counter \<open>renamed\<close> is unchanged and the warning logged
  last holds the rejected name, the function address, the address of the table entry and
  the computed name address, but a function is ensured at the function address of the entry
  first; when the raw name has 3 characters or more it is accepted: the function symbol
  \<^verbatim>\<open>go.\<close> followed by the name without spaces is defined and the counter grows by one.
\<close>

theorem short_name_entry:
  assumes "get_pointer_at bv addr None = Inr (Some func_addr)"
    and "get_pointer_at bv (addr + ptr_size bv) None = Inr (Some entry_offset)"
    and "get_pointer_at bv (base_addr + entry_offset + ptr_size bv) (Some 4) = Inr (Some name_str_offset)"
    and "get_ascii_string_at bv (base_addr + name_str_offset) = Some name"
    and "name \<noteq> []"
  shows "(length name \<le> 2 \<longrightarrow>
            fst (process_entry bv base_addr addr st) = Normal
          \<and> symbols (db (snd (process_entry bv base_addr addr st))) = symbols (db st)
          \<and> data_vars (db (snd (process_entry bv base_addr addr st))) = data_vars (db st)
          \<and> renamed (snd (process_entry bv base_addr addr st)) = renamed st
          \<and> funcs (db (snd (process_entry bv base_addr addr st))) = insert func_addr (funcs (db st))
          \<and> log (snd (process_entry bv base_addr addr st)) =
              log st @ [Debug_analyzing addr, Debug_func_entry func_addr entry_offset,
                        Debug_found_name name func_addr,
                        Warn_not_using name func_addr addr (base_addr + name_str_offset)])
       \<and> (2 < length name \<longrightarrow>
            fst (process_entry bv base_addr addr st) = Normal
          \<and> symbols (db (snd (process_entry bv base_addr addr st))) =
              (symbols (db st))(func_addr \<mapsto>
                 Symbol FunctionSymbol func_addr (''go.'' @ santize_gofunc_name name)
                   (''go.'' @ santize_gofunc_name name))
          \<and> data_vars (db (snd (process_entry bv base_addr addr st))) = data_vars (db st)
          \<and> renamed (snd (process_entry bv base_addr addr st)) = renamed st + 1
          \<and> funcs (db (snd (process_entry bv base_addr addr st))) = insert func_addr (funcs (db st)))"
  unfolding process_entry_named [OF assms]
  by (auto simp add: Let_def log_msg_def create_user_function_def define_user_symbol_def
        GOFUNC_PREFIX_def)

lemma named_entry_reads:
  "get_pointer_at (named_entry_view nm) 4112 None = Inr (Some 8192)"
  "get_pointer_at (named_entry_view nm) (4112 + ptr_size (named_entry_view nm)) None = Inr (Some 256)"
  "get_pointer_at (named_entry_view nm) (4096 + 256 + ptr_size (named_entry_view nm)) (Some 4) = Inr (Some 512)"
  "get_ascii_string_at (named_entry_view nm) (4096 + 512) = Some nm"
  by (simp_all add: named_entry_view_def null_view_def get_pointer_at_def)

theorem short_name_entry_witness:
  "funcs (db (snd (process_entry (named_entry_view ''x'') 4096 4112 run0))) = {8192}
   \<and> symbols (db (snd (process_entry (named_entry_view ''x'') 4096 4112 run0))) 8192 = None
   \<and> renamed (snd (process_entry (named_entry_view ''x'') 4096 4112 run0)) = 0
   \<and> log (snd (process_entry (named_entry_view ''x'') 4096 4112 run0)) =
        [Debug_analyzing 4112, Debug_func_entry 8192 256, Debug_found_name ''x'' 8192,
         Warn_not_using ''x'' 8192 4112 4608]
   \<and> symbols (db (snd (process_entry (named_entry_view ''main.foo'') 4096 4112 run0))) 8192 =
        Some (Symbol FunctionSymbol 8192 ''go.main.foo'' ''go.main.foo'')
   \<and> renamed (snd (process_entry (named_entry_view ''main.foo'') 4096 4112 run0)) = 1"
  using short_name_entry [OF named_entry_reads [of "''x''"], of run0]
    short_name_entry [OF named_entry_reads [of "''main.foo''"], of run0]
  by (simp add: run0_def empty_db_def santize_gofunc_name_def)

text \<open>
  The raw name \<^verbatim>\<open>ab\<close> is rejected, yet a function is created at 0x2000 where there was none;
  the raw name \<^verbatim>\<open>a b\<close> is two characters long after sanitization, yet it is accepted.
\<close>

theorem short_name_entry_counterexample:
  "length (santize_gofunc_name ''ab'') \<le> 2
   \<and> 8192 \<notin> funcs (db run0)
   \<and> 8192 \<in> funcs (db (snd (process_entry (named_entry_view ''ab'') 4096 4112 run0)))
   \<and> length (santize_gofunc_name ''a b'') \<le> 2
   \<and> symbols (db (snd (process_entry (named_entry_view ''a b'') 4096 4112 run0))) 8192 =
        Some (Symbol FunctionSymbol 8192 ''go.ab'' ''go.ab'')
   \<and> renamed (snd (process_entry (named_entry_view ''a b'') 4096 4112 run0)) = 1"
  by (simp add: process_entry_named [OF named_entry_reads] run0_def empty_db_def
        santize_gofunc_name_def Let_def log_msg_def create_user_function_def
        define_user_symbol_def GOFUNC_PREFIX_def)

text \<open>
  Claim C10. For an entry whose three pointer reads succeed: when the lookup at the
  computed name address yields no string (none at all, or an empty one), processing the
  entry returns normally and leaves the database and the counter \<open>renamed\<close> as they were;
  a name that is not empty but at most 2 characters long does reach the function-creation
  step, after which a function exists at the function address of the entry.
\<close>

theorem nameless_entry_unchanged:
  assumes "get_pointer_at bv addr None = Inr (Some func_addr)"
    and "get_pointer_at bv (addr + ptr_size bv) None = Inr (Some entry_offset)"
    and "get_pointer_at bv (base_addr + entry_offset + ptr_size bv) (Some 4) = Inr (Some name_str_offset)"
  shows "(get_ascii_string_at bv (base_addr + name_str_offset) = None
          \<or> get_ascii_string_at bv (base_addr + name_str_offset) = Some [] \<longrightarrow>
            fst (process_entry bv base_addr addr st) = Normal
          \<and> db (snd (process_entry bv base_addr addr st)) = db st
          \<and> renamed (snd (process_entry bv base_addr addr st)) = renamed st)
       \<and> (\<forall>name. get_ascii_string_at bv (base_addr + name_str_offset) = Some name
              \<and> name \<noteq> [] \<and> length name \<le> 2 \<longrightarrow>
            funcs (db (snd (process_entry bv base_addr addr st))) = insert func_addr (funcs (db st)))"
proof (intro conjI impI allI)
  assume "get_ascii_string_at bv (base_addr + name_str_offset) = None
          \<or> get_ascii_string_at bv (base_addr + name_str_offset) = Some []"
  note eq = process_entry_nameless [OF assms this, of st]
  show "fst (process_entry bv base_addr addr st) = Normal"
    and "db (snd (process_entry bv base_addr addr st)) = db st"
    and "renamed (snd (process_entry bv base_addr addr st)) = renamed st"
    by (simp_all add: eq log_msg_def)
next
  fix name
  assume "get_ascii_string_at bv (base_addr + name_str_offset) = Some name
              \<and> name \<noteq> [] \<and> length name \<le> 2"
  then have n: "get_ascii_string_at bv (base_addr + name_str_offset) = Some name" "name \<noteq> []"
    and short: "length name \<le> 2" by simp_all
  show "funcs (db (snd (process_entry bv base_addr addr st))) = insert func_addr (funcs (db st))"
    using short
    by (auto simp add: process_entry_named [OF assms n] Let_def log_msg_def create_user_function_def)
qed

lemma named_entry_reads_rest:
  "get_pointer_at (named_entry_view nm) 4128 None = Inr (Some 0)"
  "get_pointer_at (named_entry_view nm) (4128 + ptr_size (named_entry_view nm)) None = Inr (Some 0)"
  "get_pointer_at (named_entry_view nm) (4096 + 0 + ptr_size (named_entry_view nm)) (Some 4) = Inr (Some 2)"
  "get_ascii_string_at (named_entry_view nm) (4096 + 2) = None"
  by (simp_all add: named_entry_view_def null_view_def get_pointer_at_def)

theorem nameless_entry_unchanged_witness:
  "get_ascii_string_at (named_entry_view ''x'') (4096 + 2) = None
   \<and> fst (process_entry (named_entry_view ''x'') 4096 4128 run0) = Normal
   \<and> db (snd (process_entry (named_entry_view ''x'') 4096 4128 run0)) = empty_db
   \<and> renamed (snd (process_entry (named_entry_view ''x'') 4096 4128 run0)) = 0
   \<and> get_ascii_string_at (named_entry_view ''x'') (4096 + 512) = Some ''x''
   \<and> funcs (db (snd (process_entry (named_entry_view ''x'') 4096 4112 run0))) = {8192}"
  using nameless_entry_unchanged [OF named_entry_reads_rest(1-3) [of "''x''"], of run0]
    nameless_entry_unchanged [OF named_entry_reads(1-3) [of "''x''"], of run0]
    named_entry_reads_rest(4) [of "''x''"] named_entry_reads(4) [of "''x''"]
  by (simp add: run0_def empty_db_def)

section \<open>Whole runs on concrete images\<close>

lemma one_entry_first:
  "8192 \<notin> funcs (db st) \<Longrightarrow>
   process_entry one_entry_view 4096 4112 st =
     (Normal,
      (define_user_symbol (Symbol FunctionSymbol 8192 ''go.main.foo'' ''go.main.foo'')
         (create_user_function 8192
            (log_msg (Debug_found_name ''main.foo'' 8192)
               (log_msg (Debug_func_entry 8192 256) (log_msg (Debug_analyzing 4112) st)))))
      \<lparr>renamed := Suc (renamed st)\<rparr>)"
  by (simp add: process_entry_def one_entry_view_def null_view_def get_pointer_at_def Let_def
      GOFUNC_PREFIX_def santize_gofunc_name_def log_msg_def create_user_function_def
      define_user_symbol_def)

lemma one_entry_rest:
  "a \<noteq> 4096 \<Longrightarrow> a \<noteq> 4104 \<Longrightarrow> a \<noteq> 4112 \<Longrightarrow> a \<noteq> 4120 \<Longrightarrow>
   process_entry one_entry_view 4096 a st =
     (Normal, log_msg (Debug_func_entry 0 0) (log_msg (Debug_analyzing a) st))"
  by (simp add: process_entry_def one_entry_view_def null_view_def get_pointer_at_def)

lemma one_entry_addrs:
  "entry_addrs 4096 16 8 =
     [4112, 4128, 4144, 4160, 4176, 4192, 4208, 4224, 4240, 4256, 4272, 4288, 4304, 4320, 4336]"
  by (simp add: entry_addrs_def py_range.simps)

text \<open>
  Claim C1 fails on the code. On the well-formed table of one entry (size field
  16 = 1 * 2 * 8, every pointer readable) the run reports one entry in its message of
  line 101 and then visits fifteen entry addresses, 0x1010 to 0x10f0, because the loop
  ends at \<open>base_addr + size * ptr_size * 2\<close>.
\<close>

theorem one_entry_table_walk:
  "rename_functions one_entry_view empty_db =
     (Normal,
      \<lparr>db = \<lparr>funcs = {8192},
              symbols = [8192 \<mapsto> Symbol FunctionSymbol 8192 ''go.main.foo'' ''go.main.foo''],
              data_vars = Map.empty\<rparr>,
       renamed = 1,
       log = [Info_renaming, Info_found 4096 1,
              Debug_analyzing 4112, Debug_func_entry 8192 256, Debug_found_name ''main.foo'' 8192,
              Debug_analyzing 4128, Debug_func_entry 0 0, Debug_analyzing 4144, Debug_func_entry 0 0,
              Debug_analyzing 4160, Debug_func_entry 0 0, Debug_analyzing 4176, Debug_func_entry 0 0,
              Debug_analyzing 4192, Debug_func_entry 0 0, Debug_analyzing 4208, Debug_func_entry 0 0,
              Debug_analyzing 4224, Debug_func_entry 0 0, Debug_analyzing 4240, Debug_func_entry 0 0,
              Debug_analyzing 4256, Debug_func_entry 0 0, Debug_analyzing 4272, Debug_func_entry 0 0,
              Debug_analyzing 4288, Debug_func_entry 0 0, Debug_analyzing 4304, Debug_func_entry 0 0,
              Debug_analyzing 4320, Debug_func_entry 0 0, Debug_analyzing 4336, Debug_func_entry 0 0,
              Info_renamed 1]\<rparr>)
   \<and> length (filter is_analyzing (log (snd (rename_functions one_entry_view empty_db)))) = 15"
proof -
  have loc: "locate_base_addr one_entry_view = Some 4096"
    by (simp add: locate_base_addr_def get_section_by_name_def one_entry_view_def null_view_def)
  have sz: "get_pointer_at one_entry_view 4104 None = Inr (Some 16)"
    by (simp add: get_pointer_at_def one_entry_view_def null_view_def)
  have ps: "ptr_size one_entry_view = 8"
    by (simp add: one_entry_view_def null_view_def)
  have run: "rename_functions one_entry_view empty_db =
     (Normal,
      \<lparr>db = \<lparr>funcs = {8192},
              symbols = [8192 \<mapsto> Symbol FunctionSymbol 8192 ''go.main.foo'' ''go.main.foo''],
              data_vars = Map.empty\<rparr>,
       renamed = 1,
       log = [Info_renaming, Info_found 4096 1,
              Debug_analyzing 4112, Debug_func_entry 8192 256, Debug_found_name ''main.foo'' 8192,
              Debug_analyzing 4128, Debug_func_entry 0 0, Debug_analyzing 4144, Debug_func_entry 0 0,
              Debug_analyzing 4160, Debug_func_entry 0 0, Debug_analyzing 4176, Debug_func_entry 0 0,
              Debug_analyzing 4192, Debug_func_entry 0 0, Debug_analyzing 4208, Debug_func_entry 0 0,
              Debug_analyzing 4224, Debug_func_entry 0 0, Debug_analyzing 4240, Debug_func_entry 0 0,
              Debug_analyzing 4256, Debug_func_entry 0 0, Debug_analyzing 4272, Debug_func_entry 0 0,
              Debug_analyzing 4288, Debug_func_entry 0 0, Debug_analyzing 4304, Debug_func_entry 0 0,
              Debug_analyzing 4320, Debug_func_entry 0 0, Debug_analyzing 4336, Debug_func_entry 0 0,
              Info_renamed 1]\<rparr>)"
    by (simp add: rename_functions_def Let_def loc sz ps one_entry_addrs one_entry_first
        one_entry_rest log_msg_def empty_db_def create_user_function_def define_user_symbol_def)
  show ?thesis
    unfolding run by (simp add: is_analyzing_def)
qed

text \<open>
  Claim C4 fails on the code. In the partially corrupt table the loop is to visit the
  entries at 0x1010 and 0x1020. The 4-byte name offset of the first cannot be read; the
  \<open>None\<close> of that read reaches the addition of line 117, the exception ends the run, and
  the intact second entry, which alone would name the function at 0x2100, is never
  analysed.
\<close>

theorem corrupt_entry_aborts_walk:
  "entry_addrs 4096 3 8 = [4112, 4128]
   \<and> rename_functions corrupt_entry_view empty_db =
       (Raised None_operand,
        \<lparr>db = empty_db, renamed = 0,
         log = [Info_renaming, Info_found 4096 0, Debug_analyzing 4112,
                Debug_func_entry 8192 2147483647]\<rparr>)
   \<and> symbols (db (snd (process_entry corrupt_entry_view 4096 4128 run0))) 8448 =
       Some (Symbol FunctionSymbol 8448 ''go.main.bar'' ''go.main.bar'')"
proof -
  have addrs: "entry_addrs 4096 3 8 = [4112, 4128]"
    by (simp add: entry_addrs_def py_range.simps)
  have loc: "locate_base_addr corrupt_entry_view = Some 4096"
    by (simp add: locate_base_addr_def get_section_by_name_def corrupt_entry_view_def null_view_def)
  have sz: "get_pointer_at corrupt_entry_view 4104 None = Inr (Some 3)"
    by (simp add: get_pointer_at_def corrupt_entry_view_def null_view_def)
  have ps: "ptr_size corrupt_entry_view = 8"
    by (simp add: corrupt_entry_view_def null_view_def)
  have first: "process_entry corrupt_entry_view 4096 4112 st =
      (Raised None_operand,
       log_msg (Debug_func_entry 8192 2147483647) (log_msg (Debug_analyzing 4112) st))" for st
    by (simp add: process_entry_def corrupt_entry_view_def null_view_def get_pointer_at_def)
  have run: "rename_functions corrupt_entry_view empty_db =
       (Raised None_operand,
        \<lparr>db = empty_db, renamed = 0,
         log = [Info_renaming, Info_found 4096 0, Debug_analyzing 4112,
                Debug_func_entry 8192 2147483647]\<rparr>)"
    by (simp add: rename_functions_def Let_def loc sz ps addrs first log_msg_def)
  have second: "symbols (db (snd (process_entry corrupt_entry_view 4096 4128 run0))) 8448 =
       Some (Symbol FunctionSymbol 8448 ''go.main.bar'' ''go.main.bar'')"
    by (simp add: process_entry_def corrupt_entry_view_def null_view_def get_pointer_at_def
        Let_def GOFUNC_PREFIX_def santize_gofunc_name_def log_msg_def create_user_function_def
        define_user_symbol_def run0_def empty_db_def)
  show ?thesis using addrs run second by simp
qed

text \<open>
  Claim C7 fails on \<open>get_pointer_at_virt\<close>. With 8-byte pointers, a read that returns only
  four bytes is decoded as a 4-byte number instead of being refused.
\<close>

theorem short_read_decoded_narrower:
  "ptr_size short_read_view = 8
   \<and> read short_read_view 24576 (ptr_size short_read_view) = [0x78, 0x56, 0x34, 0x12]
   \<and> get_pointer_at_virt short_read_view 24576 = Inr 305419896"
  by (simp add: get_pointer_at_virt_def short_read_view_def null_view_def)

section \<open>Locating the table\<close>

lemma find_from_least:
  "pat \<noteq> [] \<Longrightarrow> take (length pat) (drop k xs) = pat \<Longrightarrow>
   \<exists>m\<le>k. find_from pat a xs = Some (a + int m)
        \<and> take (length pat) (drop m xs) = pat
        \<and> (\<forall>j<m. take (length pat) (drop j xs) \<noteq> pat)"
proof (induction xs arbitrary: k a)
  case Nil
  then show ?case by simp
next
  case (Cons b bs)
  show ?case
  proof (cases "take (length pat) (b # bs) = pat")
    case True
    then have "find_from pat a (b # bs) = Some (a + int 0)
        \<and> take (length pat) (drop 0 (b # bs)) = pat
        \<and> (\<forall>j<0. take (length pat) (drop j (b # bs)) \<noteq> pat)"
      by simp
    then show ?thesis by blast
  next
    case False
    with Cons.prems(2) obtain k' where k: "k = Suc k'"
      by (cases k) auto
    with Cons.prems(2) have "take (length pat) (drop k' bs) = pat" by simp
    from Cons.IH [OF Cons.prems(1) this, of "a + 1"]
    obtain m where m: "m \<le> k'" "find_from pat (a + 1) bs = Some (a + 1 + int m)"
      "take (length pat) (drop m bs) = pat"
      "\<forall>j<m. take (length pat) (drop j bs) \<noteq> pat"
      by blast
    have none: "take (length pat) (drop j (b # bs)) \<noteq> pat" if "j < Suc m" for j
    proof (cases j)
      case 0
      with False show ?thesis by simp
    next
      case (Suc j')
      with that m(4) show ?thesis by simp
    qed
    have "Suc m \<le> k" using m(1) k by simp
    moreover have "find_from pat a (b # bs) = Some (a + int (Suc m))"
      using False m(2) by simp
    moreover have "take (length pat) (drop (Suc m) (b # bs)) = pat"
      using m(3) by simp
    ultimately show ?thesis using none by blast
  qed
qed

text \<open>
  Claim C6. When the section \<^verbatim>\<open>.gopclntab\<close> exists the base address is its start. When it
  does not, the base address is what the host's search for the six bytes
  fb ff ff ff 00 00 from address 0 returns; on an image searched linearly that is the
  lowest address at which the six bytes occur, whenever they occur at all. When there is
  neither a section nor a match, the run logs the alert and returns with the database it
  was started on: no function is created and no symbol is defined.
\<close>

theorem locate_base_addr_cases:
  "(\<forall>sec. sections bv ''.gopclntab'' = Some sec \<longrightarrow> locate_base_addr bv = Some (start sec))
   \<and> (sections bv ''.gopclntab'' = None \<longrightarrow>
        locate_base_addr bv = find_next_data bv 0 [0xfb, 0xff, 0xff, 0xff, 0x00, 0x00])
   \<and> (\<forall>k. take 6 (drop k img) = [0xfb, 0xff, 0xff, 0xff, 0x00, 0x00] \<longrightarrow>
        (\<exists>m\<le>k. locate_base_addr (image_view img) = Some (int m)
           \<and> take 6 (drop m img) = [0xfb, 0xff, 0xff, 0xff, 0x00, 0x00]
           \<and> (\<forall>j<m. take 6 (drop j img) \<noteq> [0xfb, 0xff, 0xff, 0xff, 0x00, 0x00])))
   \<and> (sections bv ''.gopclntab'' = None
        \<and> find_next_data bv 0 [0xfb, 0xff, 0xff, 0xff, 0x00, 0x00] = None \<longrightarrow>
        rename_functions bv d =
          (Normal, \<lparr>db = d, renamed = 0, log = [Info_renaming, Alert_not_found]\<rparr>))"
proof (intro conjI allI impI)
  fix sec
  assume "sections bv ''.gopclntab'' = Some sec"
  then show "locate_base_addr bv = Some (start sec)"
    by (simp add: locate_base_addr_def get_section_by_name_def)
next
  assume "sections bv ''.gopclntab'' = None"
  then show "locate_base_addr bv = find_next_data bv 0 [0xfb, 0xff, 0xff, 0xff, 0x00, 0x00]"
    by (simp add: locate_base_addr_def get_section_by_name_def gopclntab_pattern_def)
next
  fix k
  assume occ: "take 6 (drop k img) = [0xfb, 0xff, 0xff, 0xff, 0x00, 0x00]"
  have loc: "locate_base_addr (image_view img) = find_from gopclntab_pattern 0 img"
    by (simp add: locate_base_addr_def get_section_by_name_def image_view_def null_view_def)
  have len: "length gopclntab_pattern = 6" and ne: "gopclntab_pattern \<noteq> []"
    by (simp_all add: gopclntab_pattern_def)
  have "take 6 (drop k img) = gopclntab_pattern"
    using occ by (simp only: gopclntab_pattern_def)
  then have "take (length gopclntab_pattern) (drop k img) = gopclntab_pattern"
    by (simp only: len)
  from find_from_least [OF ne this, of 0]
  show "\<exists>m\<le>k. locate_base_addr (image_view img) = Some (int m)
           \<and> take 6 (drop m img) = [0xfb, 0xff, 0xff, 0xff, 0x00, 0x00]
           \<and> (\<forall>j<m. take 6 (drop j img) \<noteq> [0xfb, 0xff, 0xff, 0xff, 0x00, 0x00])"
    unfolding loc len by (simp add: gopclntab_pattern_def)
next
  assume "sections bv ''.gopclntab'' = None
        \<and> find_next_data bv 0 [0xfb, 0xff, 0xff, 0xff, 0x00, 0x00] = None"
  then have "locate_base_addr bv = None"
    by (simp add: locate_base_addr_def get_section_by_name_def gopclntab_pattern_def)
  then show "rename_functions bv d =
          (Normal, \<lparr>db = d, renamed = 0, log = [Info_renaming, Alert_not_found]\<rparr>)"
    by (simp add: rename_functions_def log_msg_def)
qed

theorem locate_base_addr_cases_witness:
  "sections one_entry_view ''.gopclntab'' = Some \<lparr>start = 4096\<rparr>
   \<and> locate_base_addr one_entry_view = Some 4096
   \<and> sections (image_view two_match_image) ''.gopclntab'' = None
   \<and> take 6 (drop 9 two_match_image) = [0xfb, 0xff, 0xff, 0xff, 0x00, 0x00]
   \<and> locate_base_addr (image_view two_match_image) = Some 1
   \<and> sections null_view ''.gopclntab'' = None
   \<and> find_next_data null_view 0 [0xfb, 0xff, 0xff, 0xff, 0x00, 0x00] = None
   \<and> rename_functions null_view empty_db =
        (Normal, \<lparr>db = empty_db, renamed = 0, log = [Info_renaming, Alert_not_found]\<rparr>)"
proof -
  have s1: "sections one_entry_view ''.gopclntab'' = Some \<lparr>start = 4096\<rparr>"
    by (simp add: one_entry_view_def null_view_def)
  have s2: "sections (image_view two_match_image) ''.gopclntab'' = None"
    by (simp add: image_view_def null_view_def)
  have occ: "take 6 (drop 9 two_match_image) = [0xfb, 0xff, 0xff, 0xff, 0x00, 0x00]"
    by (simp add: two_match_image_def)
  have f2: "find_next_data (image_view two_match_image) 0 [0xfb, 0xff, 0xff, 0xff, 0x00, 0x00] = Some 1"
    by (simp add: image_view_def null_view_def two_match_image_def)
  have s3: "sections null_view ''.gopclntab'' = None"
    "find_next_data null_view 0 [0xfb, 0xff, 0xff, 0xff, 0x00, 0x00] = None"
    by (simp_all add: null_view_def)
  show ?thesis
    using locate_base_addr_cases [of one_entry_view two_match_image empty_db]
      locate_base_addr_cases [of "image_view two_match_image" two_match_image empty_db]
      locate_base_addr_cases [of null_view two_match_image empty_db]
      s1 s2 occ f2 s3
    by simp
qed

section \<open>The scanner of calls to newproc\<close>

lemma try_lookups_db:
  "db (snd (snd (try_lookups bv fn addr n j inst st))) = db st
   \<and> renamed (snd (snd (try_lookups bv fn addr n j inst st))) = renamed st"
  by (induction n arbitrary: j) (auto simp add: Let_def log_msg_def split: il_lookup.splits)

lemma collect_params_db:
  "db (snd (snd (snd (collect_params bv fn addr n j inst params st)))) = db st
   \<and> renamed (snd (snd (snd (collect_params bv fn addr n j inst params st)))) = renamed st"
proof (induction n arbitrary: j inst params st)
  case 0
  show ?case by simp
next
  case (Suc n)
  obtain j' inst' st' where t: "try_lookups bv fn addr 6 j inst st = (j', inst', st')"
    by (cases "try_lookups bv fn addr 6 j inst st") auto
  have keep: "db st' = db st" "renamed st' = renamed st"
    using try_lookups_db [of bv fn addr 6 j inst st] t by simp_all
  show ?case
  proof (cases inst')
    case None
    with t keep show ?thesis by simp
  next
    case (Some v)
    with t keep Suc [of j' inst' "params @ [v]" st'] show ?thesis by simp
  qed
qed

lemma check_pushes_skip: "fst (snd (check_pushes ps True inst)) = True"
  by (induction ps arbitrary: inst) (auto split: option.splits)

lemma scan_site_db:
  "db (snd (snd (scan_site bv addr inst st))) = db st
   \<and> renamed (snd (snd (scan_site bv addr inst st))) = renamed st"
proof (cases "get_function_around bv addr")
  case None
  then show ?thesis by (simp add: scan_site_def log_msg_def)
next
  case (Some fn)
  show ?thesis
  proof (cases "get_low_level_il_at bv fn addr")
    case IL_IndexError
    with Some show ?thesis by (simp add: scan_site_def log_msg_def)
  next
    case IL_None
    with Some show ?thesis by (simp add: scan_site_def log_msg_def)
  next
    case (IL_Inst callinst)
    show ?thesis
    proof (cases "operation callinst \<noteq> LLIL_CALL")
      case True
      with Some IL_Inst show ?thesis by (simp add: scan_site_def log_msg_def)
    next
      case False
      define st1 where "st1 = log_msg (Info_xref addr) st"
      obtain out params inst1 st2
        where c: "collect_params bv fn addr 2 1 inst [] st1 = (out, params, inst1, st2)"
        by (cases "collect_params bv fn addr 2 1 inst [] st1") auto
      have keep: "db st2 = db st" "renamed st2 = renamed st"
        using collect_params_db [of bv fn addr 2 1 inst "[]" st1] c
        by (simp_all add: st1_def log_msg_def)
      obtain out2 skip inst2 where k: "check_pushes params True inst1 = (out2, skip, inst2)"
        by (cases "check_pushes params True inst1") auto
      have skip: "skip" using check_pushes_skip [of params inst1] k by simp
      show ?thesis
        using Some IL_Inst False c k skip keep
        by (cases out; cases out2) (simp_all add: scan_site_def Let_def st1_def [symmetric])
    qed
  qed
qed

lemma scan_sites_db:
  "db (snd (scan_sites bv addrs inst st)) = db st
   \<and> renamed (snd (scan_sites bv addrs inst st)) = renamed st"
proof (induction addrs arbitrary: inst st)
  case Nil
  show ?case by simp
next
  case (Cons a addrs)
  obtain out inst' st' where s: "scan_site bv a inst st = (out, inst', st')"
    by (cases "scan_site bv a inst st") auto
  have keep: "db st' = db st" "renamed st' = renamed st"
    using scan_site_db [of bv a inst st] s by simp_all
  show ?case using s keep Cons [of inst' st'] by (cases out) simp_all
qed

lemma rename_never_defines:
  "db (snd (rename bv d)) = d \<and> renamed (snd (rename bv d)) = 0"
proof (cases "get_symbol_by_raw_name bv ''go.runtime.newproc''")
  case None
  then show ?thesis by (simp add: rename_def)
next
  case (Some a)
  define st0 where "st0 = \<lparr>db = d, renamed = 0, log = []\<rparr>"
  obtain out st1 where s: "scan_sites bv (get_code_refs bv a) None st0 = (out, st1)"
    by (cases "scan_sites bv (get_code_refs bv a) None st0") auto
  have "db st1 = d" "renamed st1 = 0"
    using scan_sites_db [of bv "get_code_refs bv a" None st0] s by (simp_all add: st0_def)
  then show ?thesis
    using Some s by (cases out) (simp_all add: rename_def Let_def st0_def [symmetric] log_msg_def)
qed

text \<open>
  Claim C5 fails on the code. The flag \<open>skip\<close> of line 183 starts as \<open>True\<close> and is never set
  to \<open>False\<close>, so every site is skipped at line 188: on any view and any database, \<open>rename\<close>
  leaves the database as it was and counts no renaming. On the call site that meets every
  condition of the claim the run ends normally with the database unchanged, although the
  lines 192-208, run on the two collected pushes, would have defined the data variable
  and the symbol \<^verbatim>\<open>fptr_main.worker\<close>.
\<close>

theorem newproc_site_not_renamed:
  "db (snd (rename bv d)) = d
   \<and> renamed (snd (rename bv d)) = 0
   \<and> rename newproc_view newproc_db =
     (Normal,
      \<lparr>db = newproc_db, renamed = 0,
       log = [Info_xref 20480, Debug_instruction 2, Debug_instruction 3, Info_renamed_fptrs 0]\<rparr>)
   \<and> symbols (db (snd (resolve_fptr newproc_view [Some push_size, Some push_fptr]
                       \<lparr>db = newproc_db, renamed = 0, log = []\<rparr>))) 8192 =
       Some (Symbol DataSymbol 8192 ''fptr_main.worker'' ''fptr_main.worker'')
   \<and> data_vars (db (snd (resolve_fptr newproc_view [Some push_size, Some push_fptr]
                       \<lparr>db = newproc_db, renamed = 0, log = []\<rparr>))) 8192 = Some ''void*''"
proof -
  have site: "scan_site newproc_view 20480 None \<lparr>db = newproc_db, renamed = 0, log = []\<rparr> =
     (Normal, Some (Some push_fptr),
      \<lparr>db = newproc_db, renamed = 0,
       log = [Info_xref 20480, Debug_instruction 2, Debug_instruction 3]\<rparr>)"
    by (simp add: scan_site_def get_function_around_def newproc_view_def null_view_def
        log_msg_def Let_def eval_nat_numeral push_size_def push_fptr_def)
  have run: "rename newproc_view newproc_db =
     (Normal,
      \<lparr>db = newproc_db, renamed = 0,
       log = [Info_xref 20480, Debug_instruction 2, Debug_instruction 3, Info_renamed_fptrs 0]\<rparr>)"
    using site
    by (simp add: rename_def newproc_view_def null_view_def log_msg_def)
  have ptr: "get_pointer_at_virt newproc_view 24576 = Inr 8192"
    by (simp add: get_pointer_at_virt_def newproc_view_def null_view_def)
  have nm: "function_name newproc_view 8192 = ''main.worker''"
    by (simp add: newproc_view_def null_view_def)
  have san: "sanitize_var_name ''main.worker'' = ''main.worker''"
    by (simp add: sanitize_var_name_def replace_underscore_def is_name_char_def)
  have res: "resolve_fptr newproc_view [Some push_size, Some push_fptr]
                \<lparr>db = newproc_db, renamed = 0, log = []\<rparr> =
      (Normal,
       \<lparr>db = \<lparr>funcs = {8192},
               symbols = [8192 \<mapsto> Symbol DataSymbol 8192 ''fptr_main.worker'' ''fptr_main.worker''],
               data_vars = [8192 \<mapsto> ''void*'']\<rparr>,
        renamed = 1, log = [Info_newproc_call (Some 24576)]\<rparr>)"
    by (simp add: resolve_fptr_def push_fptr_def Let_def log_msg_def newproc_db_def ptr nm san
        define_user_data_var_def define_user_symbol_def)
  show ?thesis using run rename_never_defines [of bv d] by (simp add: res)
qed

end
